theory Spec2Isabelle
  imports Complex_Main
begin

section \<open>The Unreal Engine remote-control server: data model\<close>

text \<open>
  The server talks to the engine through \<^verbatim>\<open>requests.put(UE_URL, json=payload, timeout=5)\<close>.
  Python floats are modelled as reals: the operations verified here select, compare and
  forward numbers, and no property below depends on rounding. The waits
  (\<^verbatim>\<open>asyncio.sleep\<close>) and the log lines have no effect on results and are left out.
\<close>

type_synonym vec3 = "real \<times> real \<times> real"

text \<open>
  Exceptions, each with its message (\<^verbatim>\<open>str(e)\<close>): \<^verbatim>\<open>requests.exceptions.RequestException\<close>
  (time-out, connection failure, the HTTP error of \<^verbatim>\<open>raise_for_status\<close>) and any other
  \<^verbatim>\<open>Exception\<close>.
\<close>

datatype exn = RequestException string | OtherException string

fun str :: "exn \<Rightarrow> string" where
  "str (RequestException m) = m"
| "str (OtherException m) = m"

text \<open>The three encodings of \<^verbatim>\<open>NewTransform\<close>: \<^verbatim>\<open>transform\<close>, \<^verbatim>\<open>transform_alt1\<close>, \<^verbatim>\<open>transform_alt2\<close>.
  All three carry the requested translation and scale and the identity quaternion.\<close>

datatype transform_format = Transform | Transform_alt1 | Transform_alt2

text \<open>A remote call: the payload of one \<^verbatim>\<open>requests.put\<close>. For the calls on an actor the first
  argument is the \<^verbatim>\<open>objectPath\<close>.\<close>

datatype call =
    GetAllLevelActors
  | SpawnActorFromClass string vec3 vec3
  | Duplicate string transform_format vec3 vec3
  | SetActorLocation string vec3
  | SetActorRotation string vec3
  | SetActorScale3D string vec3
  | SetActorLabel string string
  | GetActorLocation string
  | GetActorRotation string
  | GetActorScale3D string

text \<open>
  The engine is a stub transport: what a request yields, given the requests made before it.
  \<open>Inl e\<close> (or \<open>Some e\<close>) means that the request raises \<open>e\<close>: in \<^verbatim>\<open>requests.put\<close>, in
  \<^verbatim>\<open>raise_for_status\<close> or, where the code decodes the body, in \<^verbatim>\<open>response.json()\<close> and
  \<^verbatim>\<open>.get\<close>. Otherwise the reply is the \<^verbatim>\<open>ReturnValue\<close> of the body, at the type the engine
  declares for the function, \<open>None\<close> when the body has no \<^verbatim>\<open>ReturnValue\<close>:
  a list of actor paths for \<^verbatim>\<open>GetAllLevelActors\<close>, an actor path for \<^verbatim>\<open>SpawnActorFromClass\<close>
  and \<^verbatim>\<open>Duplicate\<close>, an object of named numbers for the three getters. The setters' bodies
  are never read.
\<close>

record engine =
  actors_reply :: "call list \<Rightarrow> exn + string list option"
  actor_reply :: "call list \<Rightarrow> call \<Rightarrow> exn + string option"
  status_reply :: "call list \<Rightarrow> call \<Rightarrow> exn option"
  struct_reply :: "call list \<Rightarrow> call \<Rightarrow> exn + (string \<rightharpoonup> real) option"

text \<open>A computation takes the requests made so far and returns a value or a raised
  exception, with the requests made by then.\<close>

type_synonym 'a run = "call list \<Rightarrow> (exn + 'a) \<times> call list"

definition return :: "'a \<Rightarrow> 'a run" where
  "return x tr = (Inr x, tr)"

definition bind :: "'a run \<Rightarrow> ('a \<Rightarrow> 'b run) \<Rightarrow> 'b run" where
  "bind m f tr = (case m tr of (Inl e, tr') \<Rightarrow> (Inl e, tr') | (Inr x, tr') \<Rightarrow> f x tr')"

text \<open>\<^verbatim>\<open>try: m  except ...: h\<close>\<close>

definition catch :: "'a run \<Rightarrow> (exn \<Rightarrow> 'a run) \<Rightarrow> 'a run" where
  "catch m h tr = (case m tr of (Inl e, tr') \<Rightarrow> h e tr' | (Inr x, tr') \<Rightarrow> (Inr x, tr'))"

text \<open>\<^verbatim>\<open>response = requests.put(...); response.raise_for_status()\<close>, the body not read.\<close>

definition put_status :: "engine \<Rightarrow> call \<Rightarrow> unit run" where
  "put_status eng c tr =
     (case status_reply eng tr c of Some e \<Rightarrow> (Inl e, tr @ [c]) | None \<Rightarrow> (Inr (), tr @ [c]))"

text \<open>The same followed by \<^verbatim>\<open>response.json().get("ReturnValue")\<close>, for a call that creates an actor.\<close>

definition put_actor :: "engine \<Rightarrow> call \<Rightarrow> string option run" where
  "put_actor eng c tr = (actor_reply eng tr c, tr @ [c])"

text \<open>A \<^verbatim>\<open>Duplicate\<close> request whose body is not read (the retries).\<close>

definition put_actor_unread :: "engine \<Rightarrow> call \<Rightarrow> unit run" where
  "put_actor_unread eng c tr =
     (case actor_reply eng tr c of Inl e \<Rightarrow> (Inl e, tr @ [c]) | Inr _ \<Rightarrow> (Inr (), tr @ [c]))"

text \<open>The same for a getter: the \<^verbatim>\<open>ReturnValue\<close> object, if any.\<close>

definition put_struct :: "engine \<Rightarrow> call \<Rightarrow> (string \<rightharpoonup> real) option run" where
  "put_struct eng c tr = (struct_reply eng tr c, tr @ [c])"

text \<open>Python truthiness of an \<^verbatim>\<open>Optional[str]\<close>: neither \<^verbatim>\<open>None\<close> nor the empty string.\<close>

fun truthy :: "string option \<Rightarrow> bool" where
  "truthy None = False"
| "truthy (Some s) = (s \<noteq> [])"

section \<open>Helper functions\<close>

text \<open>\<^verbatim>\<open>get_all_level_actors\<close>: the list of the reply, \<^verbatim>\<open>[]\<close> when the body has no
  \<^verbatim>\<open>ReturnValue\<close> and when a \<^verbatim>\<open>RequestException\<close> is raised; another exception is not caught.\<close>

definition get_all_level_actors :: "engine \<Rightarrow> string list run" where
  "get_all_level_actors eng tr =
     (case actors_reply eng tr of
        Inr (Some actors) \<Rightarrow> (Inr actors, tr @ [GetAllLevelActors])
      | Inr None \<Rightarrow> (Inr [], tr @ [GetAllLevelActors])
      | Inl (RequestException m) \<Rightarrow> (Inr [], tr @ [GetAllLevelActors])
      | Inl (OtherException m) \<Rightarrow> (Inl (OtherException m), tr @ [GetAllLevelActors]))"

text \<open>\<^verbatim>\<open>spawn_blueprint_actor\<close>: the spawn request, then \<^verbatim>\<open>SetActorScale3D\<close> if the scale is not
  \<^verbatim>\<open>(1, 1, 1)\<close>, then \<^verbatim>\<open>SetActorLabel\<close> if a name is given, all inside one \<^verbatim>\<open>try\<close> whose two
  handlers return \<^verbatim>\<open>None\<close>.\<close>

definition spawn_blueprint_actor ::
  "engine \<Rightarrow> string \<Rightarrow> vec3 \<Rightarrow> vec3 \<Rightarrow> vec3 \<Rightarrow> string option \<Rightarrow> string option run" where
  "spawn_blueprint_actor eng blueprint_path location rotation scale name =
     catch
       (bind (put_actor eng (SpawnActorFromClass blueprint_path location rotation)) (\<lambda>result.
          case result of
            None \<Rightarrow> return None
          | Some actor_path \<Rightarrow>
              if actor_path = [] then return None
              else
                bind (if scale \<noteq> (1, 1, 1)
                      then put_status eng (SetActorScale3D actor_path scale)
                      else return ()) (\<lambda>_.
                bind (case name of
                        None \<Rightarrow> return ()
                      | Some n \<Rightarrow>
                          if n \<noteq> [] then put_status eng (SetActorLabel actor_path n)
                          else return ()) (\<lambda>_.
                return (Some actor_path)))))
       (\<lambda>e. case e of
               RequestException m \<Rightarrow> return None
             | OtherException m \<Rightarrow> return None)"

text \<open>The list comprehension \<^verbatim>\<open>[actor for actor in after_actors if actor not in before_actors]\<close>.\<close>

definition new_actors :: "string list \<Rightarrow> string list \<Rightarrow> string list" where
  "new_actors before_actors after_actors =
     filter (\<lambda>actor. actor \<notin> set before_actors) after_actors"

text \<open>
  \<^verbatim>\<open>duplicate_snowman\<close>, first part: the snapshot before, the \<^verbatim>\<open>Duplicate\<close> request with each
  format in turn, and the reference taken from the first reply or from the actors that are new
  in the listing. The result is \<open>None\<close> where the source returns \<^verbatim>\<open>None\<close> after the third
  format, and \<open>Some new_actor_path\<close> otherwise. Only the first reply's body is read.
\<close>

definition resolve_reference ::
  "engine \<Rightarrow> string \<Rightarrow> vec3 \<Rightarrow> vec3 \<Rightarrow> string option run" where
  "resolve_reference eng snowman_actor_path location scale =
     bind (get_all_level_actors eng) (\<lambda>before_actors.
     bind (put_actor eng (Duplicate snowman_actor_path Transform location scale)) (\<lambda>new_actor_path.
       if truthy new_actor_path then return new_actor_path
       else
         bind (get_all_level_actors eng) (\<lambda>after_actors.
           if new_actors before_actors after_actors \<noteq> []
           then return (Some (last (new_actors before_actors after_actors)))
           else
             bind (put_actor_unread eng
                     (Duplicate snowman_actor_path Transform_alt1 location scale)) (\<lambda>_.
             bind (get_all_level_actors eng) (\<lambda>after_actors.
               if new_actors before_actors after_actors \<noteq> []
               then return (Some (last (new_actors before_actors after_actors)))
               else
                 bind (put_actor_unread eng
                         (Duplicate snowman_actor_path Transform_alt2 location scale)) (\<lambda>_.
                 bind (get_all_level_actors eng) (\<lambda>after_actors.
                   if new_actors before_actors after_actors \<noteq> []
                   then return (Some (last (new_actors before_actors after_actors)))
                   else return None)))))))"

text \<open>Second part, under \<^verbatim>\<open>if new_actor_path:\<close>: location, rotation, scale and, if a name is
  given, the label, each request followed by \<^verbatim>\<open>raise_for_status\<close>.\<close>

definition set_properties ::
  "engine \<Rightarrow> string \<Rightarrow> vec3 \<Rightarrow> vec3 \<Rightarrow> vec3 \<Rightarrow> string option \<Rightarrow> unit run" where
  "set_properties eng new_actor_path location rotation scale name =
     bind (put_status eng (SetActorLocation new_actor_path location)) (\<lambda>_.
     bind (put_status eng (SetActorRotation new_actor_path rotation)) (\<lambda>_.
     bind (put_status eng (SetActorScale3D new_actor_path scale)) (\<lambda>_.
       case name of
         None \<Rightarrow> return ()
       | Some n \<Rightarrow>
           if n \<noteq> [] then put_status eng (SetActorLabel new_actor_path n)
           else return ())))"

text \<open>\<^verbatim>\<open>duplicate_snowman\<close>: both parts inside one \<^verbatim>\<open>try\<close> whose two handlers return \<^verbatim>\<open>None\<close>.\<close>

definition duplicate_snowman ::
  "engine \<Rightarrow> string \<Rightarrow> vec3 \<Rightarrow> vec3 \<Rightarrow> vec3 \<Rightarrow> string option \<Rightarrow> string option run" where
  "duplicate_snowman eng snowman_actor_path location rotation scale name =
     catch
       (bind (resolve_reference eng snowman_actor_path location scale) (\<lambda>resolved.
          case resolved of
            None \<Rightarrow> return None
          | Some new_actor_path \<Rightarrow>
              if new_actor_path \<noteq> [] then
                bind (set_properties eng new_actor_path location rotation scale name) (\<lambda>_.
                return (Some new_actor_path))
              else return None))
       (\<lambda>e. case e of
               RequestException m \<Rightarrow> return None
             | OtherException m \<Rightarrow> return None)"

section \<open>Tools\<close>

text \<open>
  A tool returns a string: \<^verbatim>\<open>json.dumps\<close> of a dictionary, kept here as the dictionary
  itself (its keys in the order written), or a plain text that is not JSON.
\<close>

datatype jval =
    JBool bool
  | JNum real
  | JStr string
  | JArr "jval list"
  | JObj "(string \<times> jval) list"

datatype tool_result = JsonText "(string \<times> jval) list" | PlainText string

definition SNOWMAN_WIDTH :: real where
  "SNOWMAN_WIDTH = 350"

definition SNOWMAN_LENGTH :: real where
  "SNOWMAN_LENGTH = 350"

text \<open>\<^verbatim>\<open>get_all_scene_actors\<close>\<close>

definition get_all_scene_actors :: "engine \<Rightarrow> tool_result run" where
  "get_all_scene_actors eng =
     catch
       (bind (get_all_level_actors eng) (\<lambda>actors.
          return (JsonText [(''actors'', JArr (map JStr actors)),
                            (''count'', JNum (real (length actors)))])))
       (\<lambda>e. return (PlainText (''Error getting scene actors: '' @ str e)))"

text \<open>\<^verbatim>\<open>spawn_actor\<close>\<close>

definition spawn_actor ::
  "engine \<Rightarrow> string \<Rightarrow> real \<Rightarrow> real \<Rightarrow> real \<Rightarrow> real \<Rightarrow> real \<Rightarrow> real \<Rightarrow> real \<Rightarrow> real \<Rightarrow> real \<Rightarrow>
   string option \<Rightarrow> tool_result run" where
  "spawn_actor eng blueprint_path x y z pitch yaw roll scale_x scale_y scale_z name =
     catch
       (bind (spawn_blueprint_actor eng blueprint_path (x, y, z) (pitch, yaw, roll)
                (scale_x, scale_y, scale_z) name) (\<lambda>actor_path.
          case actor_path of
            None \<Rightarrow>
              return (JsonText [(''success'', JBool False),
                                (''error'', JStr ''Failed to spawn actor'')])
          | Some p \<Rightarrow>
              if p \<noteq> [] then
                return (JsonText
                  [(''success'', JBool True),
                   (''actor_path'', JStr p),
                   (''location_cm'', JObj [(''x'', JNum x), (''y'', JNum y), (''z'', JNum z)]),
                   (''rotation'',
                      JObj [(''pitch'', JNum pitch), (''yaw'', JNum yaw), (''roll'', JNum roll)]),
                   (''scale'',
                      JObj [(''x'', JNum scale_x), (''y'', JNum scale_y), (''z'', JNum scale_z)]),
                   (''name'', JStr (if truthy name then the name else ''Unnamed''))])
              else
                return (JsonText [(''success'', JBool False),
                                  (''error'', JStr ''Failed to spawn actor'')])))
       (\<lambda>e. return (JsonText [(''success'', JBool False), (''error'', JStr (str e))]))"

text \<open>\<^verbatim>\<open>dict.get(key, default)\<close>\<close>

definition get_or :: "(string \<rightharpoonup> real) \<Rightarrow> string \<Rightarrow> real \<Rightarrow> real" where
  "get_or d k dflt = (case d k of Some v \<Rightarrow> v | None \<Rightarrow> dflt)"

text \<open>\<^verbatim>\<open>v if v is not None else current.get(key, default)\<close>\<close>

definition given_or :: "real option \<Rightarrow> (string \<rightharpoonup> real) \<Rightarrow> string \<Rightarrow> real \<Rightarrow> real" where
  "given_or v current k dflt = (case v of Some w \<Rightarrow> w | None \<Rightarrow> get_or current k dflt)"

text \<open>\<^verbatim>\<open>sub in s\<close> on strings\<close>

fun starts_with :: "string \<Rightarrow> string \<Rightarrow> bool" where
  "starts_with [] s = True"
| "starts_with (c # cs) [] = False"
| "starts_with (c # cs) (d # ds) = (c = d \<and> starts_with cs ds)"

fun contains :: "string \<Rightarrow> string \<Rightarrow> bool" where
  "contains sub [] = (sub = [])"
| "contains sub (c # cs) = (starts_with sub (c # cs) \<or> contains sub cs)"

text \<open>
  \<^verbatim>\<open>modify_actor\<close> keeps two variables, \<^verbatim>\<open>modified\<close> and \<^verbatim>\<open>results\<close>, and runs four blocks
  in sequence, each with its own \<^verbatim>\<open>try\<close>. Each block is a function on the pair.
\<close>

type_synonym progress = "bool \<times> (string \<times> jval) list"

definition modify_location ::
  "engine \<Rightarrow> string \<Rightarrow> real option \<Rightarrow> real option \<Rightarrow> real option \<Rightarrow> progress \<Rightarrow> progress run" where
  "modify_location eng actor_path x y z st =
     (if x \<noteq> None \<or> y \<noteq> None \<or> z \<noteq> None then
        catch
          (bind (put_struct eng (GetActorLocation actor_path)) (\<lambda>ret.
             let current_loc =
                   (case ret of Some d \<Rightarrow> d | None \<Rightarrow> [''X'' \<mapsto> 0, ''Y'' \<mapsto> 0, ''Z'' \<mapsto> 0]);
                 new_x = given_or x current_loc ''X'' 0;
                 new_y = given_or y current_loc ''Y'' 0;
                 new_z = given_or z current_loc ''Z'' 0
             in bind (put_status eng (SetActorLocation actor_path (new_x, new_y, new_z))) (\<lambda>_.
                return (True, snd st @
                  [(''location_cm'',
                      JObj [(''x'', JNum new_x), (''y'', JNum new_y), (''z'', JNum new_z)])]))))
          (\<lambda>e. return (fst st, snd st @ [(''location_error'', JStr (str e))]))
      else return st)"

definition modify_rotation ::
  "engine \<Rightarrow> string \<Rightarrow> real option \<Rightarrow> real option \<Rightarrow> real option \<Rightarrow> progress \<Rightarrow> progress run" where
  "modify_rotation eng actor_path pitch yaw roll st =
     (if pitch \<noteq> None \<or> yaw \<noteq> None \<or> roll \<noteq> None then
        catch
          (bind (put_struct eng (GetActorRotation actor_path)) (\<lambda>ret.
             let current_rot =
                   (case ret of Some d \<Rightarrow> d
                    | None \<Rightarrow> [''Pitch'' \<mapsto> 0, ''Yaw'' \<mapsto> 0, ''Roll'' \<mapsto> 0]);
                 new_pitch = given_or pitch current_rot ''Pitch'' 0;
                 new_yaw = given_or yaw current_rot ''Yaw'' 0;
                 new_roll = given_or roll current_rot ''Roll'' 0
             in bind (put_status eng
                        (SetActorRotation actor_path (new_pitch, new_yaw, new_roll))) (\<lambda>_.
                return (True, snd st @
                  [(''rotation'',
                      JObj [(''pitch'', JNum new_pitch), (''yaw'', JNum new_yaw),
                            (''roll'', JNum new_roll)])]))))
          (\<lambda>e. return (fst st, snd st @ [(''rotation_error'', JStr (str e))]))
      else return st)"

definition modify_scale ::
  "engine \<Rightarrow> string \<Rightarrow> real option \<Rightarrow> real option \<Rightarrow> real option \<Rightarrow> progress \<Rightarrow> progress run" where
  "modify_scale eng actor_path scale_x scale_y scale_z st =
     (if scale_x \<noteq> None \<or> scale_y \<noteq> None \<or> scale_z \<noteq> None then
        catch
          (bind (put_struct eng (GetActorScale3D actor_path)) (\<lambda>ret.
             let current_scale =
                   (case ret of Some d \<Rightarrow> d | None \<Rightarrow> [''X'' \<mapsto> 1, ''Y'' \<mapsto> 1, ''Z'' \<mapsto> 1]);
                 new_scale_x = given_or scale_x current_scale ''X'' 1;
                 new_scale_y = given_or scale_y current_scale ''Y'' 1;
                 new_scale_z = given_or scale_z current_scale ''Z'' 1
             in bind (put_status eng
                        (SetActorScale3D actor_path (new_scale_x, new_scale_y, new_scale_z))) (\<lambda>_.
                return (True, snd st @
                  [(''scale'',
                      JObj ([(''x'', JNum new_scale_x), (''y'', JNum new_scale_y),
                             (''z'', JNum new_scale_z)] @
                            (if contains ''Snowman_BP'' actor_path
                             then [(''actual_dimensions_cm'',
                                      JObj [(''width'', JNum (SNOWMAN_WIDTH * new_scale_x)),
                                            (''length'', JNum (SNOWMAN_LENGTH * new_scale_y))])]
                             else [])))]))))
          (\<lambda>e. return (fst st, snd st @ [(''scale_error'', JStr (str e))]))
      else return st)"

definition modify_name :: "engine \<Rightarrow> string \<Rightarrow> string option \<Rightarrow> progress \<Rightarrow> progress run" where
  "modify_name eng actor_path name st =
     (case name of
        None \<Rightarrow> return st
      | Some n \<Rightarrow>
          catch
            (bind (put_status eng (SetActorLabel actor_path n)) (\<lambda>_.
               return (True, snd st @ [(''name'', JStr n)])))
            (\<lambda>e. return (fst st, snd st @ [(''name_error'', JStr (str e))])))"

definition modify_actor ::
  "engine \<Rightarrow> string \<Rightarrow> real option \<Rightarrow> real option \<Rightarrow> real option \<Rightarrow>
   real option \<Rightarrow> real option \<Rightarrow> real option \<Rightarrow>
   real option \<Rightarrow> real option \<Rightarrow> real option \<Rightarrow> string option \<Rightarrow> tool_result run" where
  "modify_actor eng actor_path x y z pitch yaw roll scale_x scale_y scale_z name =
     catch
       (bind (modify_location eng actor_path x y z (False, [])) (\<lambda>st.
        bind (modify_rotation eng actor_path pitch yaw roll st) (\<lambda>st.
        bind (modify_scale eng actor_path scale_x scale_y scale_z st) (\<lambda>st.
        bind (modify_name eng actor_path name st) (\<lambda>st.
          if fst st then
            return (JsonText [(''success'', JBool True),
                              (''actor_path'', JStr actor_path),
                              (''modified'', JObj (snd st))])
          else
            return (JsonText [(''success'', JBool False),
                              (''actor_path'', JStr actor_path),
                              (''error'', JStr ''No modifications were specified''),
                              (''results'', JObj (snd st))]))))))
       (\<lambda>e. return (JsonText [(''success'', JBool False), (''error'', JStr (str e))]))"

text \<open>
  \<^verbatim>\<open>spawn_snowman_family\<close>. The draw \<^verbatim>\<open>random.uniform(0.8, 1.2)\<close> is the argument \<open>uniform\<close>,
  read only where the source calls it.
\<close>

definition positions :: "real \<Rightarrow> real \<Rightarrow> real \<Rightarrow> real \<Rightarrow> bool \<Rightarrow> real \<Rightarrow> vec3 list" where
  "positions base_x base_y base_z spread random_placement uniform =
     (let offset_factor = (if random_placement then spread * uniform else spread);
          spacing_x = SNOWMAN_WIDTH * 1.5;
          spacing_y = SNOWMAN_LENGTH * 1.5
      in [(base_x, base_y, base_z),
          (base_x - spacing_x * offset_factor, base_y + spacing_y * 0.6 * offset_factor, base_z),
          (base_x + spacing_x * 1.2 * offset_factor, base_y - spacing_y * 0.4 * offset_factor,
           base_z)])"

definition scales :: "vec3 list" where
  "scales = [(1.2, 1.2, 1.2), (0.9, 0.9, 0.9), (1.4, 1.4, 1.4)]"

definition rotations :: "vec3 list" where
  "rotations = [(0, 0, 0), (0, 135, 0), (0, - 45, 0)]"

definition names :: "string list" where
  "names = [''Snowman_Center'', ''Snowman_Left'', ''Snowman_Right'']"

definition snowman_bp_path :: string where
  "snowman_bp_path = ''/Game/Snowman_BP.Snowman_BP_C''"

text \<open>The dictionary appended to \<^verbatim>\<open>spawned_actors\<close> for snowman \<open>i\<close>.\<close>

definition snowman_entry :: "string \<Rightarrow> vec3 list \<Rightarrow> nat \<Rightarrow> jval" where
  "snowman_entry actor_path ps i =
     (case (ps ! i, scales ! i, rotations ! i) of
        ((px, py, pz), (sx, sy, sz), (pitch, yaw, roll)) \<Rightarrow>
          JObj [(''actor_path'', JStr actor_path),
                (''location_cm'', JObj [(''x'', JNum px), (''y'', JNum py), (''z'', JNum pz)]),
                (''size_cm'', JObj [(''width'', JNum (SNOWMAN_WIDTH * sx)),
                                    (''length'', JNum (SNOWMAN_LENGTH * sy))]),
                (''rotation'',
                   JObj [(''pitch'', JNum pitch), (''yaw'', JNum yaw), (''roll'', JNum roll)]),
                (''scale'', JObj [(''x'', JNum sx), (''y'', JNum sy), (''z'', JNum sz)]),
                (''name'', JStr (names ! i))])"

text \<open>The loop \<^verbatim>\<open>for i in range(1, 3)\<close>, over the indices still to do.\<close>

fun duplicate_loop ::
  "engine \<Rightarrow> string \<Rightarrow> vec3 list \<Rightarrow> nat list \<Rightarrow> jval list \<Rightarrow> jval list run" where
  "duplicate_loop eng first_snowman ps [] spawned_actors tr = (Inr spawned_actors, tr)"
| "duplicate_loop eng first_snowman ps (i # is) spawned_actors tr =
     (case duplicate_snowman eng first_snowman (ps ! i) (rotations ! i) (scales ! i)
             (Some (names ! i)) tr of
        (Inl e, tr') \<Rightarrow> (Inl e, tr')
      | (Inr duplicated_snowman, tr') \<Rightarrow>
          duplicate_loop eng first_snowman ps is
            (if truthy duplicated_snowman
             then spawned_actors @ [snowman_entry (the duplicated_snowman) ps i]
             else spawned_actors) tr')"

definition spawn_snowman_family ::
  "engine \<Rightarrow> real \<Rightarrow> real \<Rightarrow> real \<Rightarrow> real \<Rightarrow> real \<Rightarrow> bool \<Rightarrow> tool_result run" where
  "spawn_snowman_family eng uniform base_x base_y base_z spread random_placement =
     catch
       (let ps = positions base_x base_y base_z spread random_placement uniform in
        bind (spawn_blueprint_actor eng snowman_bp_path (ps ! 0) (rotations ! 0) (scales ! 0)
                (Some (names ! 0))) (\<lambda>first_snowman.
          if \<not> truthy first_snowman then
            return (JsonText [(''success'', JBool False),
                              (''error'', JStr ''Failed to spawn first snowman, cannot continue''),
                              (''snowmen'', JArr [])])
          else
            bind (duplicate_loop eng (the first_snowman) ps [1, 2]
                    [snowman_entry (the first_snowman) ps 0]) (\<lambda>spawned_actors.
            return (JsonText
              [(''success'', JBool True),
               (''standard_snowman_dimensions_cm'',
                  JObj [(''width'', JNum SNOWMAN_WIDTH), (''length'', JNum SNOWMAN_LENGTH)]),
               (''snowmen_count'', JNum (real (length spawned_actors))),
               (''snowmen'', JArr spawned_actors)]))))
       (\<lambda>e. return (JsonText [(''success'', JBool False), (''error'', JStr (str e)),
                                (''snowmen'', JArr [])]))"

section \<open>Predicates of the statements and stub engines\<close>

text \<open>The result of a run that returned, \<open>None\<close> if it raised.\<close>

definition returned :: "(exn + 'a) \<times> call list \<Rightarrow> 'a option" where
  "returned r = (case fst r of Inl e \<Rightarrow> None | Inr x \<Rightarrow> Some x)"

text \<open>The request \<open>c\<close>, made after \<open>tr\<close>, brings no usable reference: it raises, or its
  \<^verbatim>\<open>ReturnValue\<close> is absent or empty.\<close>

definition no_reference :: "engine \<Rightarrow> call list \<Rightarrow> call \<Rightarrow> bool" where
  "no_reference eng tr c =
     (case actor_reply eng tr c of Inr ret \<Rightarrow> \<not> truthy ret | Inl e \<Rightarrow> True)"

text \<open>The listing taken after \<open>tr'\<close> has no actor that the listing taken after \<open>tr\<close> lacks.\<close>

definition no_new_actor :: "engine \<Rightarrow> call list \<Rightarrow> call list \<Rightarrow> bool" where
  "no_new_actor eng tr tr' =
     (case (fst (get_all_level_actors eng tr), fst (get_all_level_actors eng tr')) of
        (Inr before_actors, Inr after_actors) \<Rightarrow> new_actors before_actors after_actors = []
      | _ \<Rightarrow> True)"

text \<open>A run of the first part that ends without a reference.\<close>

definition unresolved :: "(exn + string option) \<times> call list \<Rightarrow> bool" where
  "unresolved r = (case fst r of Inl e \<Rightarrow> True | Inr None \<Rightarrow> True | Inr (Some p) \<Rightarrow> False)"

fun is_duplicate :: "call \<Rightarrow> bool" where
  "is_duplicate (Duplicate p f l s) = True"
| "is_duplicate c = False"

text \<open>An engine that lists the one actor \<open>A\<close>, creates nothing and accepts every setter.\<close>

definition engine_idle :: engine where
  "engine_idle =
     \<lparr>actors_reply = (\<lambda>tr. Inr (Some [''A''])),
      actor_reply = (\<lambda>tr c. Inr None),
      status_reply = (\<lambda>tr c. None),
      struct_reply = (\<lambda>tr c. Inr None)\<rparr>"

text \<open>An engine whose \<^verbatim>\<open>Duplicate\<close> returns no value but adds the actor \<open>B\<close> to the level.\<close>

definition engine_appends :: engine where
  "engine_appends =
     engine_idle\<lparr>actors_reply :=
       (\<lambda>tr. Inr (Some (if list_ex is_duplicate tr then [''A'', ''B''] else [''A''])))\<rparr>"

fun is_set_rotation :: "call \<Rightarrow> bool" where
  "is_set_rotation (SetActorRotation p r) = True"
| "is_set_rotation c = False"

fun is_set_scale :: "call \<Rightarrow> bool" where
  "is_set_scale (SetActorScale3D p s) = True"
| "is_set_scale c = False"

text \<open>An engine that lists \<open>A\<close> and creates nothing visible, but whose reply to the
  \<^verbatim>\<open>Duplicate\<close> request in the second format carries the reference \<open>B\<close>.\<close>

fun retry_reply :: "call \<Rightarrow> string option" where
  "retry_reply (Duplicate p Transform_alt1 l s) = Some ''B''"
| "retry_reply c = None"

definition engine_retry_reply :: engine where
  "engine_retry_reply = engine_idle\<lparr>actor_reply := (\<lambda>tr c. Inr (retry_reply c))\<rparr>"

text \<open>An engine that answers every creating request with the reference \<open>B\<close> and rejects the
  setters selected by \<open>rejected\<close> with an HTTP error.\<close>

definition engine_rejects :: "(call \<Rightarrow> bool) \<Rightarrow> engine" where
  "engine_rejects rejected =
     engine_idle\<lparr>actor_reply := (\<lambda>tr c. Inr (Some ''B'')),
                 status_reply := (\<lambda>tr c. if rejected c
                                   then Some (RequestException ''500 Server Error'')
                                   else None)\<rparr>"

text \<open>Every request of \<open>set_properties\<close> on \<open>p\<close>, made after \<open>tr\<close>, is accepted.\<close>

definition properties_accepted ::
  "engine \<Rightarrow> string \<Rightarrow> vec3 \<Rightarrow> vec3 \<Rightarrow> vec3 \<Rightarrow> string option \<Rightarrow> call list \<Rightarrow> bool" where
  "properties_accepted eng p location rotation scale name tr =
     (status_reply eng tr (SetActorLocation p location) = None \<and>
      status_reply eng (tr @ [SetActorLocation p location]) (SetActorRotation p rotation) = None \<and>
      status_reply eng (tr @ [SetActorLocation p location, SetActorRotation p rotation])
        (SetActorScale3D p scale) = None \<and>
      (case name of
         None \<Rightarrow> True
       | Some n \<Rightarrow>
           n = [] \<or>
           status_reply eng (tr @ [SetActorLocation p location, SetActorRotation p rotation,
                                   SetActorScale3D p scale]) (SetActorLabel p n) = None))"

text \<open>Every request that \<open>spawn_blueprint_actor\<close> makes on the new actor \<open>p\<close>, after \<open>tr\<close>,
  is accepted.\<close>

definition follow_ups_accepted ::
  "engine \<Rightarrow> string \<Rightarrow> vec3 \<Rightarrow> string option \<Rightarrow> call list \<Rightarrow> bool" where
  "follow_ups_accepted eng p scale name tr =
     ((scale = (1, 1, 1) \<or> status_reply eng tr (SetActorScale3D p scale) = None) \<and>
      (case name of
         None \<Rightarrow> True
       | Some n \<Rightarrow>
           n = [] \<or>
           status_reply eng (if scale \<noteq> (1, 1, 1) then tr @ [SetActorScale3D p scale] else tr)
             (SetActorLabel p n) = None))"





text \<open>An engine that cannot be reached: every request raises.\<close>

definition engine_unreachable :: engine where
  "engine_unreachable =
     \<lparr>actors_reply = (\<lambda>tr. Inl (RequestException ''Connection refused'')),
      actor_reply = (\<lambda>tr c. Inl (RequestException ''Connection refused'')),
      status_reply = (\<lambda>tr c. Some (RequestException ''Connection refused'')),
      struct_reply = (\<lambda>tr c. Inl (RequestException ''Connection refused''))\<rparr>"

text \<open>An engine whose replies are not JSON objects: decoding a reply raises an exception that
  is not a \<^verbatim>\<open>RequestException\<close>.\<close>

definition engine_garbled :: engine where
  "engine_garbled =
     engine_idle\<lparr>actors_reply := (\<lambda>tr. Inl (OtherException ''Expecting value''))\<rparr>"

text \<open>The \<^verbatim>\<open>success\<close> flag of a result and its \<^verbatim>\<open>error\<close> string, if it has them.\<close>

definition success_flag :: "tool_result \<Rightarrow> bool option" where
  "success_flag out =
     (case out of
        JsonText d \<Rightarrow> (case map_of d ''success'' of Some (JBool b) \<Rightarrow> Some b | _ \<Rightarrow> None)
      | PlainText s \<Rightarrow> None)"

definition error_text :: "tool_result \<Rightarrow> string option" where
  "error_text out =
     (case out of
        JsonText d \<Rightarrow> (case map_of d ''error'' of Some (JStr s) \<Rightarrow> Some s | _ \<Rightarrow> None)
      | PlainText s \<Rightarrow> None)"

text \<open>A tool returned (it did not raise) a dictionary with a success flag and, when the
  flag is false, an error string.\<close>

definition reports :: "tool_result option \<Rightarrow> bool" where
  "reports r =
     (case r of
        None \<Rightarrow> False
      | Some out \<Rightarrow>
          (case success_flag out of
             None \<Rightarrow> False
           | Some True \<Rightarrow> True
           | Some False \<Rightarrow> (case error_text out of None \<Rightarrow> False | Some s \<Rightarrow> True)))"

section \<open>The duplicate protocol\<close>

lemma snd_get_all_level_actors: "snd (get_all_level_actors eng tr) = tr @ [GetAllLevelActors]"
  by (simp add: get_all_level_actors_def split: sum.splits option.splits exn.splits)

lemma get_all_level_actors_eq:
  "get_all_level_actors eng tr = (fst (get_all_level_actors eng tr), tr @ [GetAllLevelActors])"
  using snd_get_all_level_actors[of eng tr] by (simp add: prod_eq_iff)



lemma unresolved_snapshot:
  assumes "fst (get_all_level_actors eng tr0) = Inr before_actors"
      and "no_new_actor eng tr0 t"
      and "unresolved (K (t @ [GetAllLevelActors]))"
  shows "unresolved (bind (get_all_level_actors eng)
           (\<lambda>after_actors. if new_actors before_actors after_actors \<noteq> []
              then return (Some (last (new_actors before_actors after_actors)))
              else K) t)"
proof (cases "fst (get_all_level_actors eng t)")
  case (Inl e)
  then show ?thesis
    using get_all_level_actors_eq[of eng t] by (simp add: bind_def unresolved_def)
next
  case (Inr after_actors)
  then have "new_actors before_actors after_actors = []"
    using assms(1,2) by (simp add: no_new_actor_def)
  then show ?thesis
    using Inr assms(3) get_all_level_actors_eq[of eng t] by (simp add: bind_def)
qed

lemma unresolved_unread:
  assumes "unresolved (K (t @ [c]))"
  shows "unresolved (bind (put_actor_unread eng c) (\<lambda>_. K) t)"
  using assms by (simp add: bind_def put_actor_unread_def unresolved_def split: sum.splits)

lemma unresolved_return_None: "unresolved (return None t)"
  by (simp add: return_def unresolved_def)

lemma resolve_unresolved:
  assumes "no_reference eng (tr @ [GetAllLevelActors]) (Duplicate src Transform location scale)"
      and "no_new_actor eng tr (tr @ [GetAllLevelActors, Duplicate src Transform location scale])"
      and "no_new_actor eng tr (tr @ [GetAllLevelActors, Duplicate src Transform location scale,
              GetAllLevelActors, Duplicate src Transform_alt1 location scale])"
      and "no_new_actor eng tr (tr @ [GetAllLevelActors, Duplicate src Transform location scale,
              GetAllLevelActors, Duplicate src Transform_alt1 location scale,
              GetAllLevelActors, Duplicate src Transform_alt2 location scale])"
  shows "unresolved (resolve_reference eng src location scale tr)"
proof (cases "fst (get_all_level_actors eng tr)")
  case (Inl e)
  then show ?thesis
    using get_all_level_actors_eq[of eng tr]
    by (simp add: resolve_reference_def bind_def unresolved_def)
next
  case before: (Inr before_actors)
  show ?thesis
  proof (cases "actor_reply eng (tr @ [GetAllLevelActors])
                  (Duplicate src Transform location scale)")
    case (Inl e)
    then show ?thesis
      using before get_all_level_actors_eq[of eng tr]
      by (simp add: resolve_reference_def bind_def unresolved_def put_actor_def)
  next
    case (Inr ret)
    then have falsy: "\<not> truthy ret"
      using assms(1) by (simp add: no_reference_def)
    have step: "resolve_reference eng src location scale tr =
        bind (get_all_level_actors eng) (\<lambda>after_actors.
           if new_actors before_actors after_actors \<noteq> []
           then return (Some (last (new_actors before_actors after_actors)))
           else
             bind (put_actor_unread eng (Duplicate src Transform_alt1 location scale)) (\<lambda>_.
             bind (get_all_level_actors eng) (\<lambda>after_actors.
               if new_actors before_actors after_actors \<noteq> []
               then return (Some (last (new_actors before_actors after_actors)))
               else
                 bind (put_actor_unread eng (Duplicate src Transform_alt2 location scale)) (\<lambda>_.
                 bind (get_all_level_actors eng) (\<lambda>after_actors.
                   if new_actors before_actors after_actors \<noteq> []
                   then return (Some (last (new_actors before_actors after_actors)))
                   else return None)))))
          (tr @ [GetAllLevelActors, Duplicate src Transform location scale])"
      using before Inr falsy get_all_level_actors_eq[of eng tr]
      by (simp add: resolve_reference_def bind_def[of "get_all_level_actors eng" _ tr]
          bind_def[of "put_actor eng _"] put_actor_def)
    show ?thesis
      unfolding step
      apply (rule unresolved_snapshot[OF before assms(2)])
      apply (rule unresolved_unread)
      apply simp
      apply (rule unresolved_snapshot[OF before assms(3)])
      apply (rule unresolved_unread)
      apply simp
      apply (rule unresolved_snapshot[OF before assms(4)])
      apply (rule unresolved_return_None)
      done
  qed
qed

text \<open>
  C2. When the first \<^verbatim>\<open>Duplicate\<close> reply brings no reference and none of the three listings
  taken after the three formats has an actor that the listing taken before lacks,
  \<^verbatim>\<open>duplicate_snowman\<close> returns \<^verbatim>\<open>None\<close>: no reference is made up.
\<close>

theorem duplicate_undetectable_returns_None:
  assumes "no_reference eng (tr @ [GetAllLevelActors]) (Duplicate src Transform location scale)"
      and "no_new_actor eng tr (tr @ [GetAllLevelActors, Duplicate src Transform location scale])"
      and "no_new_actor eng tr (tr @ [GetAllLevelActors, Duplicate src Transform location scale,
              GetAllLevelActors, Duplicate src Transform_alt1 location scale])"
      and "no_new_actor eng tr (tr @ [GetAllLevelActors, Duplicate src Transform location scale,
              GetAllLevelActors, Duplicate src Transform_alt1 location scale,
              GetAllLevelActors, Duplicate src Transform_alt2 location scale])"
  shows "fst (duplicate_snowman eng src location rotation scale name tr) = Inr None"
  using resolve_unresolved[OF assms]
  by (auto simp: duplicate_snowman_def catch_def bind_def return_def unresolved_def
      split: prod.splits sum.splits exn.splits option.splits)

theorem duplicate_undetectable_returns_None_witness:
  "fst (duplicate_snowman engine_idle ''A'' (100, 0, 0) (0, 135, 0) (1, 1, 1)
          (Some ''Snowman_Left'') []) = Inr None"
  using duplicate_undetectable_returns_None
    [of engine_idle "[]" "''A''" "(100, 0, 0)" "(1, 1, 1)" "(0, 135, 0)" "Some ''Snowman_Left''"]
  by (simp add: engine_idle_def no_reference_def no_new_actor_def get_all_level_actors_def
      new_actors_def)

text \<open>
  C3. The replies to the retried \<^verbatim>\<open>Duplicate\<close> requests are not read. Here the reply to the
  second format carries the reference \<open>B\<close>; the run goes on to the third format and returns
  \<^verbatim>\<open>None\<close>. Each format is requested once.
\<close>

theorem duplicate_retry_ignores_returned_reference:
  "duplicate_snowman engine_retry_reply ''A'' (100, 0, 0) (0, 135, 0) (1, 1, 1) None [] =
     (Inr None,
      [GetAllLevelActors, Duplicate ''A'' Transform (100, 0, 0) (1, 1, 1),
       GetAllLevelActors, Duplicate ''A'' Transform_alt1 (100, 0, 0) (1, 1, 1),
       GetAllLevelActors, Duplicate ''A'' Transform_alt2 (100, 0, 0) (1, 1, 1),
       GetAllLevelActors])
   \<and> actor_reply engine_retry_reply
        [GetAllLevelActors, Duplicate ''A'' Transform (100, 0, 0) (1, 1, 1), GetAllLevelActors]
        (Duplicate ''A'' Transform_alt1 (100, 0, 0) (1, 1, 1)) = Inr (Some ''B'')"
  by (simp add: duplicate_snowman_def resolve_reference_def catch_def bind_def return_def
      put_actor_def put_actor_unread_def get_all_level_actors_def new_actors_def
      engine_retry_reply_def engine_idle_def)

lemma set_properties_fst:
  "fst (set_properties eng p location rotation scale name tr) = Inr ()
   \<longleftrightarrow> properties_accepted eng p location rotation scale name tr"
  by (auto simp: set_properties_def properties_accepted_def bind_def return_def put_status_def
      split: option.splits)

text \<open>
  C4, as the code has it. Once a reference \<open>p\<close> is resolved, \<^verbatim>\<open>duplicate_snowman\<close> returns it
  exactly when the requests for location, rotation, scale and (if a name is given) label are
  all accepted; when one of them fails it returns \<^verbatim>\<open>None\<close>.
\<close>

theorem duplicate_returns_reference_iff_properties_accepted:
  assumes "resolve_reference eng src location scale tr = (Inr (Some p), tr1)" and "p \<noteq> []"
  shows "fst (duplicate_snowman eng src location rotation scale name tr) =
           (if properties_accepted eng p location rotation scale name tr1
            then Inr (Some p) else Inr None)"
proof (cases "set_properties eng p location rotation scale name tr1")
  case (Pair r t)
  then have "r = Inr () \<longleftrightarrow> properties_accepted eng p location rotation scale name tr1"
    using set_properties_fst[of eng p location rotation scale name tr1] by simp
  then show ?thesis
    using assms Pair
    by (cases r) (auto simp: duplicate_snowman_def catch_def bind_def return_def
        split: exn.splits)
qed

theorem duplicate_returns_reference_iff_properties_accepted_witness:
  "fst (duplicate_snowman (engine_rejects is_set_rotation) ''A'' (100, 0, 0) (0, 135, 0)
            (1, 1, 1) None []) = Inr None
   \<and> fst (duplicate_snowman engine_appends ''A'' (100, 0, 0) (0, 135, 0)
            (1, 1, 1) None []) = Inr (Some ''B'')"
  using duplicate_returns_reference_iff_properties_accepted
          [of "engine_rejects is_set_rotation" "''A''" "(100, 0, 0)" "(1, 1, 1)" "[]" "''B''"
              "[GetAllLevelActors, Duplicate ''A'' Transform (100, 0, 0) (1, 1, 1)]"
              "(0, 135, 0)" None]
        duplicate_returns_reference_iff_properties_accepted
          [of engine_appends "''A''" "(100, 0, 0)" "(1, 1, 1)" "[]" "''B''"
              "[GetAllLevelActors, Duplicate ''A'' Transform (100, 0, 0) (1, 1, 1),
                GetAllLevelActors]"
              "(0, 135, 0)" None]
  by (simp add: resolve_reference_def bind_def return_def put_actor_def put_actor_unread_def
      get_all_level_actors_def new_actors_def properties_accepted_def
      engine_rejects_def engine_appends_def engine_idle_def)

text \<open>The claim as written fails: the reference \<open>B\<close> is resolved, the rotation request is
  rejected, and the result is \<^verbatim>\<open>None\<close>.\<close>

theorem duplicate_fails_on_rejected_rotation:
  "fst (resolve_reference (engine_rejects is_set_rotation) ''A'' (100, 0, 0) (1, 1, 1) [])
     = Inr (Some ''B'')
   \<and> fst (duplicate_snowman (engine_rejects is_set_rotation) ''A'' (100, 0, 0) (0, 135, 0)
            (1, 1, 1) None []) = Inr None"
  by (simp add: duplicate_snowman_def resolve_reference_def set_properties_def catch_def
      bind_def return_def put_actor_def put_status_def get_all_level_actors_def
      engine_rejects_def engine_idle_def)

section \<open>Spawning\<close>

text \<open>
  C5, as the code has it. When the spawn request returns a reference \<open>p\<close>,
  \<^verbatim>\<open>spawn_blueprint_actor\<close> returns it exactly when the scale request (made if the scale is
  not \<^verbatim>\<open>(1, 1, 1)\<close>) and the label request (made if a name is given) are accepted; when one
  of them fails it returns \<^verbatim>\<open>None\<close>.
\<close>

theorem spawn_returns_reference_iff_follow_ups_accepted:
  assumes "actor_reply eng tr (SpawnActorFromClass bp location rotation) = Inr (Some p)"
      and "p \<noteq> []"
  shows "fst (spawn_blueprint_actor eng bp location rotation scale name tr) =
           (if follow_ups_accepted eng p scale name
                 (tr @ [SpawnActorFromClass bp location rotation])
            then Inr (Some p) else Inr None)"
  using assms
  by (auto simp: spawn_blueprint_actor_def follow_ups_accepted_def catch_def bind_def return_def
      put_actor_def put_status_def split: option.splits exn.splits)

theorem spawn_returns_reference_iff_follow_ups_accepted_witness:
  "fst (spawn_blueprint_actor (engine_rejects is_set_rotation) ''/Game/Snowman_BP.Snowman_BP_C''
            (0, 0, 0) (0, 0, 0) (2, 2, 2) (Some ''Snowman_Center'') []) = Inr (Some ''B'')
   \<and> fst (spawn_blueprint_actor (engine_rejects is_set_scale) ''/Game/Snowman_BP.Snowman_BP_C''
            (0, 0, 0) (0, 0, 0) (2, 2, 2) (Some ''Snowman_Center'') []) = Inr None"
  using spawn_returns_reference_iff_follow_ups_accepted
          [of "engine_rejects is_set_rotation" "[]" "''/Game/Snowman_BP.Snowman_BP_C''"
              "(0, 0, 0)" "(0, 0, 0)" "''B''" "(2, 2, 2)" "Some ''Snowman_Center''"]
        spawn_returns_reference_iff_follow_ups_accepted
          [of "engine_rejects is_set_scale" "[]" "''/Game/Snowman_BP.Snowman_BP_C''"
              "(0, 0, 0)" "(0, 0, 0)" "''B''" "(2, 2, 2)" "Some ''Snowman_Center''"]
  by (simp add: follow_ups_accepted_def engine_rejects_def engine_idle_def)

text \<open>The claim as written fails: the spawn request returns \<open>B\<close>, the scale request is
  rejected, and the result is \<^verbatim>\<open>None\<close>.\<close>

theorem spawn_fails_on_rejected_scale:
  "actor_reply (engine_rejects is_set_scale) []
      (SpawnActorFromClass ''/Game/Snowman_BP.Snowman_BP_C'' (0, 0, 0) (0, 0, 0)) = Inr (Some ''B'')
   \<and> fst (spawn_blueprint_actor (engine_rejects is_set_scale) ''/Game/Snowman_BP.Snowman_BP_C''
            (0, 0, 0) (0, 0, 0) (2, 2, 2) None []) = Inr None"
  by (simp add: spawn_blueprint_actor_def catch_def bind_def return_def put_actor_def
      put_status_def engine_rejects_def engine_idle_def)

section \<open>Modifying an actor\<close>





lemma modify_location_none: "modify_location eng a None None None st tr = (Inr st, tr)"
  by (simp add: modify_location_def return_def)

lemma modify_rotation_none: "modify_rotation eng a None None None st tr = (Inr st, tr)"
  by (simp add: modify_rotation_def return_def)

lemma modify_scale_none: "modify_scale eng a None None None st tr = (Inr st, tr)"
  by (simp add: modify_scale_def return_def)

lemma modify_name_none: "modify_name eng a None st tr = (Inr st, tr)"
  by (simp add: modify_name_def return_def)







text \<open>
  C7. A request that specifies \<open>x\<close>, against an engine that cannot be reached, is answered
  with \<^verbatim>\<open>"No modifications were specified"\<close>: the flag \<^verbatim>\<open>modified\<close> records a set request that
  succeeded, not a field that was given.
\<close>

theorem modify_reports_nothing_specified_on_failure:
  "modify_actor engine_unreachable ''A'' (Some 10) None None None None None None None None None []
     = (Inr (JsonText [(''success'', JBool False),
                       (''actor_path'', JStr ''A''),
                       (''error'', JStr ''No modifications were specified''),
                       (''results'', JObj [(''location_error'', JStr ''Connection refused'')])]),
        [GetActorLocation ''A''])"
  by (simp add: modify_actor_def modify_location_def modify_rotation_def modify_scale_def
      modify_name_def catch_def bind_def return_def put_struct_def engine_unreachable_def)

lemma modify_actor_nothing_requested:
  "modify_actor eng a None None None None None None None None None None tr
     = (Inr (JsonText [(''success'', JBool False),
                       (''actor_path'', JStr a),
                       (''error'', JStr ''No modifications were specified''),
                       (''results'', JObj [])]), tr)"
  by (simp add: modify_actor_def catch_def bind_def return_def modify_location_none
      modify_rotation_none modify_scale_none modify_name_none)

section \<open>The tool surface\<close>

lemma catch_returns:
  assumes "\<And>e t. \<exists>x. fst (h e t) = Inr x"
  shows "\<exists>x. fst (catch m h tr) = Inr x"
proof (cases "m tr")
  case (Pair r t)
  then show ?thesis
    using assms by (cases r) (auto simp: catch_def)
qed

lemma spawn_blueprint_actor_returns:
  "\<exists>r. fst (spawn_blueprint_actor eng bp location rotation scale name tr) = Inr r"
  unfolding spawn_blueprint_actor_def
  by (rule catch_returns) (auto simp: return_def split: exn.splits)

lemma duplicate_snowman_returns:
  "\<exists>r. fst (duplicate_snowman eng src location rotation scale name tr) = Inr r"
  unfolding duplicate_snowman_def
  by (rule catch_returns) (auto simp: return_def split: exn.splits)

lemma reports_spawn_actor:
  "reports (returned (spawn_actor eng bp x y z pitch yaw roll sx sy sz name tr))"
proof (cases "spawn_blueprint_actor eng bp (x, y, z) (pitch, yaw, roll) (sx, sy, sz) name tr")
  case (Pair r t)
  then show ?thesis
    by (cases r)
       (auto simp: spawn_actor_def catch_def bind_def return_def returned_def reports_def
          success_flag_def error_text_def split: option.splits)
qed

lemma reports_modify_actor:
  "reports (returned (modify_actor eng a x y z pitch yaw roll sx sy sz name tr))"
  by (auto simp: modify_actor_def catch_def bind_def return_def returned_def reports_def
      success_flag_def error_text_def split: prod.splits sum.splits)

lemma reports_spawn_snowman_family:
  "reports (returned (spawn_snowman_family eng u bx by bz sp rp tr))"
  by (auto simp: spawn_snowman_family_def catch_def bind_def return_def returned_def reports_def
      success_flag_def error_text_def Let_def split: prod.splits sum.splits)

lemma get_all_scene_actors_shape:
  "(\<exists>actors. returned (get_all_scene_actors eng tr) =
       Some (JsonText [(''actors'', JArr (map JStr actors)),
                       (''count'', JNum (real (length actors)))]))
   \<or> (\<exists>m. returned (get_all_scene_actors eng tr) =
       Some (PlainText (''Error getting scene actors: '' @ m)))"
proof (cases "get_all_level_actors eng tr")
  case (Pair r t)
  then show ?thesis
    by (cases r) (auto simp: get_all_scene_actors_def catch_def bind_def return_def returned_def)
qed

lemma get_all_scene_actors_by_outcome:
  "returned (get_all_scene_actors eng tr) =
     (case actors_reply eng tr of
        Inr (Some actors) \<Rightarrow>
          Some (JsonText [(''actors'', JArr (map JStr actors)),
                          (''count'', JNum (real (length actors)))])
      | Inr None \<Rightarrow> Some (JsonText [(''actors'', JArr []), (''count'', JNum 0)])
      | Inl (RequestException m) \<Rightarrow>
          Some (JsonText [(''actors'', JArr []), (''count'', JNum 0)])
      | Inl (OtherException m) \<Rightarrow>
          Some (PlainText (''Error getting scene actors: '' @ m)))"
  by (simp add: get_all_scene_actors_def get_all_level_actors_def catch_def bind_def return_def
      returned_def split: sum.splits option.splits exn.splits)

lemma get_all_scene_actors_no_flag:
  "\<exists>out. returned (get_all_scene_actors eng tr) = Some out \<and> success_flag out = None"
  by (auto simp: get_all_scene_actors_by_outcome success_flag_def
      split: sum.splits option.splits exn.splits)

text \<open>
  C8, as the code has it. No tool lets an exception out. \<^verbatim>\<open>spawn_actor\<close>,
  \<^verbatim>\<open>spawn_snowman_family\<close> and \<^verbatim>\<open>modify_actor\<close> return a dictionary with a success flag and,
  when it is false, an error string. \<^verbatim>\<open>get_all_scene_actors\<close> returns the dictionary of
  \<^verbatim>\<open>actors\<close> and \<^verbatim>\<open>count\<close>, which has no success flag, or a plain error text: the listed
  actors when the request succeeds, the empty list when the reply has no \<^verbatim>\<open>ReturnValue\<close> and
  when the request raises a \<^verbatim>\<open>RequestException\<close>, the plain text with the message when
  another exception is raised.
\<close>

theorem tools_return_results:
  "reports (returned (spawn_actor eng bp x y z pitch yaw roll sx sy sz name tr))
   \<and> reports (returned (spawn_snowman_family eng u bx by bz sp rp tr))
   \<and> reports (returned (modify_actor eng a mx my mz mpitch myaw mroll msx msy msz mname tr))
   \<and> ((\<exists>actors. returned (get_all_scene_actors eng tr) =
          Some (JsonText [(''actors'', JArr (map JStr actors)),
                          (''count'', JNum (real (length actors)))]))
       \<or> (\<exists>m. returned (get_all_scene_actors eng tr) =
          Some (PlainText (''Error getting scene actors: '' @ m))))
   \<and> returned (get_all_scene_actors eng tr) =
       (case actors_reply eng tr of
          Inr (Some actors) \<Rightarrow>
            Some (JsonText [(''actors'', JArr (map JStr actors)),
                            (''count'', JNum (real (length actors)))])
        | Inr None \<Rightarrow> Some (JsonText [(''actors'', JArr []), (''count'', JNum 0)])
        | Inl (RequestException m) \<Rightarrow>
            Some (JsonText [(''actors'', JArr []), (''count'', JNum 0)])
        | Inl (OtherException m) \<Rightarrow>
            Some (PlainText (''Error getting scene actors: '' @ m)))
   \<and> (\<exists>out. returned (get_all_scene_actors eng tr) = Some out \<and> success_flag out = None)"
  by (intro conjI reports_spawn_actor reports_spawn_snowman_family reports_modify_actor
      get_all_scene_actors_shape get_all_scene_actors_by_outcome get_all_scene_actors_no_flag)

text \<open>The claim as written fails for \<^verbatim>\<open>get_all_scene_actors\<close>: its result has no success flag.\<close>

theorem scene_actors_result_has_no_success_flag:
  "returned (get_all_scene_actors engine_idle []) =
     Some (JsonText [(''actors'', JArr [JStr ''A'']), (''count'', JNum 1)])
   \<and> success_flag (JsonText [(''actors'', JArr [JStr ''A'']), (''count'', JNum 1)]) = None"
  by (simp add: get_all_scene_actors_def get_all_level_actors_def catch_def bind_def return_def
      returned_def success_flag_def engine_idle_def)


theorem tools_return_results_witness:
  "reports (returned (spawn_actor engine_unreachable ''/Game/Snowman_BP.Snowman_BP_C''
       0 0 0 0 0 0 1 1 1 None []))
   \<and> returned (get_all_scene_actors engine_unreachable []) =
       Some (JsonText [(''actors'', JArr []), (''count'', JNum 0)])
   \<and> returned (get_all_scene_actors engine_garbled []) =
       Some (PlainText ''Error getting scene actors: Expecting value'')
   \<and> returned (get_all_scene_actors engine_appends []) =
       Some (JsonText [(''actors'', JArr [JStr ''A'']), (''count'', JNum 1)])"
  using tools_return_results
          [of engine_unreachable "''/Game/Snowman_BP.Snowman_BP_C''" 0 0 0 0 0 0 1 1 1 None "[]"]
        tools_return_results[of engine_garbled _ _ _ _ _ _ _ _ _ _ _ "[]"]
        tools_return_results[of engine_appends _ _ _ _ _ _ _ _ _ _ _ "[]"]
  by (simp add: engine_unreachable_def engine_garbled_def engine_appends_def engine_idle_def)

section \<open>The snowman family\<close>

lemma duplicate_snowman_eq:
  "\<exists>r. duplicate_snowman eng src location rotation scale name tr =
     (Inr r, snd (duplicate_snowman eng src location rotation scale name tr))"
  using duplicate_snowman_returns[of eng src location rotation scale name tr]
  by (auto simp: prod_eq_iff)

lemma duplicate_loop_two:
  "\<exists>acc'. duplicate_loop eng first ps [i, j] acc tr =
     (Inr acc',
      snd (duplicate_snowman eng first (ps ! j) (rotations ! j) (scales ! j) (Some (names ! j))
        (snd (duplicate_snowman eng first (ps ! i) (rotations ! i) (scales ! i)
                (Some (names ! i)) tr))))"
proof -
  define t1 where "t1 = snd (duplicate_snowman eng first (ps ! i) (rotations ! i) (scales ! i)
               (Some (names ! i)) tr)"
  define t2 where "t2 = snd (duplicate_snowman eng first (ps ! j) (rotations ! j) (scales ! j)
               (Some (names ! j)) t1)"
  obtain r1 where e1: "duplicate_snowman eng first (ps ! i) (rotations ! i) (scales ! i)
               (Some (names ! i)) tr = (Inr r1, t1)"
    unfolding t1_def using duplicate_snowman_eq by blast
  obtain r2 where e2: "duplicate_snowman eng first (ps ! j) (rotations ! j) (scales ! j)
               (Some (names ! j)) t1 = (Inr r2, t2)"
    unfolding t2_def using duplicate_snowman_eq by blast
  have "\<exists>acc'. duplicate_loop eng first ps [i, j] acc tr = (Inr acc', t2)"
    by (simp add: e1 e2)
  then show ?thesis
    by (simp only: t2_def t1_def)
qed

lemma positions_fixed:
  "positions bx by bz sp False u =
     [(bx, by, bz), (bx - 525 * sp, by + 315 * sp, bz), (bx + 630 * sp, by - 210 * sp, bz)]"
  by (simp add: positions_def SNOWMAN_WIDTH_def SNOWMAN_LENGTH_def Let_def)


lemma family_independent:
  "spawn_snowman_family eng u1 bx by bz sp False = spawn_snowman_family eng u2 bx by bz sp False"
  by (simp add: spawn_snowman_family_def positions_fixed)

lemma family_requests_spawned:
  assumes "spawn_blueprint_actor eng snowman_bp_path (bx, by, bz) (0, 0, 0)
             (1.2, 1.2, 1.2) (Some ''Snowman_Center'') tr = (Inr (Some first), t)"
      and "first \<noteq> []"
  shows "snd (spawn_snowman_family eng u bx by bz sp False tr) =
           snd (duplicate_snowman eng first (bx + 630 * sp, by - 210 * sp, bz) (0, - 45, 0)
                  (1.4, 1.4, 1.4) (Some ''Snowman_Right'')
             (snd (duplicate_snowman eng first (bx - 525 * sp, by + 315 * sp, bz) (0, 135, 0)
                    (0.9, 0.9, 0.9) (Some ''Snowman_Left'') t)))"
proof -
  let ?ps = "[(bx, by, bz), (bx - 525 * sp, by + 315 * sp, bz),
              (bx + 630 * sp, by - 210 * sp, bz)]"
  obtain acc' where l: "duplicate_loop eng first ?ps [1, 2] [snowman_entry first ?ps 0] t =
     (Inr acc',
      snd (duplicate_snowman eng first (?ps ! 2) (rotations ! 2) (scales ! 2) (Some (names ! 2))
        (snd (duplicate_snowman eng first (?ps ! 1) (rotations ! 1) (scales ! 1)
                (Some (names ! 1)) t))))"
    using duplicate_loop_two[of eng first ?ps 1 2 "[snowman_entry first ?ps 0]" t] by blast
  have idx: "?ps ! 1 = (bx - 525 * sp, by + 315 * sp, bz)"
            "?ps ! 2 = (bx + 630 * sp, by - 210 * sp, bz)"
            "rotations ! 1 = (0, 135, 0)" "rotations ! 2 = (0, - 45, 0)"
            "scales ! 1 = (0.9, 0.9, 0.9)" "scales ! 2 = (1.4, 1.4, 1.4)"
            "names ! 1 = ''Snowman_Left''" "names ! 2 = ''Snowman_Right''"
    by (simp_all add: rotations_def scales_def names_def numeral_2_eq_2)
  have first: "?ps ! 0 = (bx, by, bz)" "rotations ! 0 = (0, 0, 0)"
     "scales ! 0 = (1.2, 1.2, 1.2)" "names ! 0 = ''Snowman_Center''"
    by (simp_all add: rotations_def scales_def names_def)
  have "spawn_snowman_family eng u bx by bz sp False tr =
          (Inr (JsonText
              [(''success'', JBool True),
               (''standard_snowman_dimensions_cm'',
                  JObj [(''width'', JNum SNOWMAN_WIDTH), (''length'', JNum SNOWMAN_LENGTH)]),
               (''snowmen_count'', JNum (real (length acc'))),
               (''snowmen'', JArr acc')]),
           snd (duplicate_snowman eng first (?ps ! 2) (rotations ! 2) (scales ! 2)
                  (Some (names ! 2))
             (snd (duplicate_snowman eng first (?ps ! 1) (rotations ! 1) (scales ! 1)
                (Some (names ! 1)) t))))"
    unfolding spawn_snowman_family_def positions_fixed Let_def catch_def bind_def first
    using assms by (simp only: l return_def prod.case sum.case truthy.simps option.sel
        if_False if_True not_not simp_thms)
  then show ?thesis
    by (simp only: idx snd_conv)
qed

lemma family_requests_failed:
  assumes "spawn_blueprint_actor eng snowman_bp_path (bx, by, bz) (0, 0, 0)
             (1.2, 1.2, 1.2) (Some ''Snowman_Center'') tr = (Inr r, t)"
      and "\<not> truthy r"
  shows "snd (spawn_snowman_family eng u bx by bz sp False tr) = t"
  using assms
  by (simp add: spawn_snowman_family_def positions_fixed catch_def bind_def return_def
      rotations_def scales_def names_def Let_def)

text \<open>
  C9, as the code has it. With \<^verbatim>\<open>random_placement = False\<close> the run does not depend on the
  random draw and the three positions are fixed by the inputs. When the spawn returns a
  reference, the requests of the run are those of that spawn, then of the duplicate to the
  left, then of the duplicate to the right: three attempts. When the spawn returns none, the
  run ends with the requests of the spawn.
\<close>

theorem family_is_deterministic_spawn_then_two_duplicates:
  "spawn_snowman_family eng u1 bx by bz sp False = spawn_snowman_family eng u2 bx by bz sp False
   \<and> positions bx by bz sp False u1 =
       [(bx, by, bz), (bx - 525 * sp, by + 315 * sp, bz), (bx + 630 * sp, by - 210 * sp, bz)]
   \<and> (\<forall>first t.
         spawn_blueprint_actor eng snowman_bp_path (bx, by, bz) (0, 0, 0)
           (1.2, 1.2, 1.2) (Some ''Snowman_Center'') tr = (Inr (Some first), t)
         \<and> first \<noteq> [] \<longrightarrow>
         snd (spawn_snowman_family eng u1 bx by bz sp False tr) =
           snd (duplicate_snowman eng first (bx + 630 * sp, by - 210 * sp, bz) (0, - 45, 0)
                  (1.4, 1.4, 1.4) (Some ''Snowman_Right'')
             (snd (duplicate_snowman eng first (bx - 525 * sp, by + 315 * sp, bz) (0, 135, 0)
                    (0.9, 0.9, 0.9) (Some ''Snowman_Left'') t))))
   \<and> (\<forall>r t.
         spawn_blueprint_actor eng snowman_bp_path (bx, by, bz) (0, 0, 0)
           (1.2, 1.2, 1.2) (Some ''Snowman_Center'') tr = (Inr r, t)
         \<and> \<not> truthy r \<longrightarrow>
         snd (spawn_snowman_family eng u1 bx by bz sp False tr) = t)"
  using family_independent[of eng u1 bx "by" bz sp u2] positions_fixed[of bx "by" bz sp u1]
    family_requests_spawned[of eng bx "by" bz tr _ _ u1 sp]
    family_requests_failed[of eng bx "by" bz tr _ _ u1 sp]
  by blast

text \<open>The claim as written fails: the spawn returns no reference and no duplicate is tried.\<close>

theorem family_stops_after_failed_spawn:
  "spawn_snowman_family engine_idle 1 0 0 0 1 False [] =
     (Inr (JsonText [(''success'', JBool False),
                     (''error'', JStr ''Failed to spawn first snowman, cannot continue''),
                     (''snowmen'', JArr [])]),
      [SpawnActorFromClass ''/Game/Snowman_BP.Snowman_BP_C'' (0, 0, 0) (0, 0, 0)])"
  by (simp add: spawn_snowman_family_def spawn_blueprint_actor_def positions_fixed catch_def
      bind_def return_def put_actor_def rotations_def scales_def names_def snowman_bp_path_def
      engine_idle_def Let_def)


theorem family_is_deterministic_spawn_then_two_duplicates_witness:
  "snd (spawn_snowman_family (engine_rejects is_set_rotation) 1 0 0 0 1 False []) =
     [SpawnActorFromClass ''/Game/Snowman_BP.Snowman_BP_C'' (0, 0, 0) (0, 0, 0),
      SetActorScale3D ''B'' (1.2, 1.2, 1.2),
      SetActorLabel ''B'' ''Snowman_Center'',
      GetAllLevelActors,
      Duplicate ''B'' Transform (- 525, 315, 0) (0.9, 0.9, 0.9),
      SetActorLocation ''B'' (- 525, 315, 0),
      SetActorRotation ''B'' (0, 135, 0),
      GetAllLevelActors,
      Duplicate ''B'' Transform (630, - 210, 0) (1.4, 1.4, 1.4),
      SetActorLocation ''B'' (630, - 210, 0),
      SetActorRotation ''B'' (0, - 45, 0)]
   \<and> snd (spawn_snowman_family engine_idle 1 0 0 0 1 False []) =
     [SpawnActorFromClass ''/Game/Snowman_BP.Snowman_BP_C'' (0, 0, 0) (0, 0, 0)]"
  using family_is_deterministic_spawn_then_two_duplicates[of "engine_rejects is_set_rotation" 1 0 0 0 1 1 "[]",
            THEN conjunct2, THEN conjunct2, THEN conjunct1, rule_format,
            of "''B''"
               "[SpawnActorFromClass ''/Game/Snowman_BP.Snowman_BP_C'' (0, 0, 0) (0, 0, 0),
                 SetActorScale3D ''B'' (1.2, 1.2, 1.2),
                 SetActorLabel ''B'' ''Snowman_Center'']"]
        family_is_deterministic_spawn_then_two_duplicates[of engine_idle 1 0 0 0 1 1 "[]",
            THEN conjunct2, THEN conjunct2, THEN conjunct2, rule_format,
            of None
               "[SpawnActorFromClass ''/Game/Snowman_BP.Snowman_BP_C'' (0, 0, 0) (0, 0, 0)]"]
  by (simp add: spawn_blueprint_actor_def duplicate_snowman_def resolve_reference_def
      set_properties_def catch_def bind_def return_def put_actor_def put_status_def
      get_all_level_actors_def snowman_bp_path_def engine_rejects_def engine_idle_def)

end
